theory Spec2Isabelle
  imports Main
begin

section \<open>The declarations of lib/account.d.ts\<close>

text \<open>
  The source is a TypeScript declaration file: it holds imports, interfaces and one
  declared class, and no function body. The embedding represents what the file declares
  (names, modifiers, parameter lists and types) as data, member by member and in source
  order. Statements about what is declared are theorems about these values; statements
  about what a method body does need the body, which the file does not contain.
\<close>

subsection \<open>Types as they are written in the file\<close>

text \<open>
  \<open>TRef\<close> is a type referred to by name (imported, global or declared in this file),
  \<open>TFun\<close> a function type \<^verbatim>\<open>(input: any) => Buffer\<close>, \<open>TIndexed\<close> an index signature
  \<^verbatim>\<open>{ [key: string]: AccessKeyView }\<close>, \<open>TObjLit\<close> an object type literal and
  \<open>TTuple\<close> a tuple type.
\<close>

datatype ts_type =
    TString
  | TBoolean
  | TAny
  | TObject
  | TRef string
  | TArray ts_type
  | TUnion ts_type ts_type
  | TTuple "ts_type list"
  | TPromise ts_type
  | TFun "(string \<times> ts_type) list" ts_type
  | TIndexed string ts_type ts_type
  | TObjLit "(string \<times> ts_type) list"

subsection \<open>Imports, interfaces and class members\<close>

datatype import_decl =
    ImportDefault string string
  | ImportNamed "string list" string

text \<open>A property signature of an interface: \<^verbatim>\<open>name?: type\<close>.\<close>

datatype prop_sig = PropSig (pname: string) (poptional: bool) (ptype: ts_type)

datatype interface_decl =
  Interface (iname: string) (iexported: bool) (iextends: "string option")
    (iprops: "prop_sig list")

text \<open>
  A parameter is bound to an identifier or, for the three option-bag methods, to an
  object pattern \<^verbatim>\<open>{ receiverId, actions, returnError }\<close>.
\<close>

datatype binding = Ident string | ObjectPattern "string list"

datatype param = Param (binding: binding) (optional: bool) (partype: ts_type)

datatype visibility = Public | Protected

datatype method_sig =
  MethodSig (mvisibility: visibility) (mname: string) (mparams: "param list")
    (mreturn: ts_type)

text \<open>
  The members of a declared class. A private member is emitted without its type and
  without its parameter list (\<^verbatim>\<open>private printLogs;\<close>): the declaration does not say
  whether it is a method or a property.
\<close>

datatype member =
    PropertyDecl (is_readonly: bool) (propname: string) (proptype: ts_type)
  | ConstructorDecl "param list"
  | MethodDecl method_sig
  | PrivateDecl string

datatype class_decl = Class (cname: string) (cexported: bool) (cmembers: "member list")

record declaration_file =
  imports_of :: "import_decl list"
  interfaces :: "interface_decl list"
  classes :: "class_decl list"

subsection \<open>Lines 2 to 7: the imports\<close>

definition account_imports :: "import_decl list" where
  "account_imports =
    [ ImportDefault ''BN'' ''bn.js'',
      ImportNamed [''Action'', ''SignedTransaction''] ''./transaction'',
      ImportNamed [''FinalExecutionOutcome''] ''./providers'',
      ImportNamed [''AccountView'', ''AccessKeyView'', ''AccessKeyInfoView'', ''BlockReference'']
        ''./providers/provider'',
      ImportNamed [''Connection''] ''./connection'',
      ImportNamed [''PublicKey''] ''./utils/key_pair'' ]"

subsection \<open>Lines 8 to 88: the interfaces\<close>

definition AccountBalance :: interface_decl where
  "AccountBalance = Interface ''AccountBalance'' True None
    [ PropSig ''total'' False TString,
      PropSig ''stateStaked'' False TString,
      PropSig ''staked'' False TString,
      PropSig ''available'' False TString ]"

definition AccountAuthorizedApp :: interface_decl where
  "AccountAuthorizedApp = Interface ''AccountAuthorizedApp'' True None
    [ PropSig ''contractId'' False TString,
      PropSig ''amount'' False TString,
      PropSig ''publicKey'' False TString ]"

definition SignAndSendTransactionOptions :: interface_decl where
  "SignAndSendTransactionOptions = Interface ''SignAndSendTransactionOptions'' True None
    [ PropSig ''receiverId'' False TString,
      PropSig ''actions'' False (TArray (TRef ''Action'')),
      PropSig ''walletMeta'' True TString,
      PropSig ''walletCallbackUrl'' True TString,
      PropSig ''returnError'' True TBoolean ]"

definition FunctionCallOptions :: interface_decl where
  "FunctionCallOptions = Interface ''FunctionCallOptions'' True None
    [ PropSig ''contractId'' False TString,
      PropSig ''methodName'' False TString,
      PropSig ''args'' True TObject,
      PropSig ''gas'' True (TRef ''BN''),
      PropSig ''attachedDeposit'' True (TRef ''BN''),
      PropSig ''stringify'' True (TFun [(''input'', TAny)] (TRef ''Buffer'')),
      PropSig ''jsContract'' True TBoolean ]"

definition ChangeFunctionCallOptions :: interface_decl where
  "ChangeFunctionCallOptions =
    Interface ''ChangeFunctionCallOptions'' True (Some ''FunctionCallOptions'')
    [ PropSig ''walletMeta'' True TString,
      PropSig ''walletCallbackUrl'' True TString ]"

definition ViewFunctionCallOptions :: interface_decl where
  "ViewFunctionCallOptions =
    Interface ''ViewFunctionCallOptions'' True (Some ''FunctionCallOptions'')
    [ PropSig ''parse'' True (TFun [(''response'', TRef ''Uint8Array'')] TAny),
      PropSig ''blockQuery'' True (TRef ''BlockReference'') ]"

definition StakedBalance :: interface_decl where
  "StakedBalance = Interface ''StakedBalance'' False None
    [ PropSig ''validatorId'' False TString,
      PropSig ''amount'' True TString,
      PropSig ''error'' True TString ]"

definition ActiveDelegatedStakeBalance :: interface_decl where
  "ActiveDelegatedStakeBalance = Interface ''ActiveDelegatedStakeBalance'' False None
    [ PropSig ''stakedValidators'' False (TArray (TRef ''StakedBalance'')),
      PropSig ''failedValidators'' False (TArray (TRef ''StakedBalance'')),
      PropSig ''total'' False (TUnion (TRef ''BN'') TString) ]"

subsection \<open>Lines 96 to 244: the class Account\<close>

text \<open>
  Two types are written out many times in the class and are named here: the return type
  \<^verbatim>\<open>Promise<FinalExecutionOutcome>\<close> and the parameter type \<^verbatim>\<open>string | PublicKey\<close>.
  Line 1 (a reference to the node typings) and line 245 (\<^verbatim>\<open>export {}\<close>) declare nothing.
\<close>

definition outcome :: ts_type where
  "outcome = TPromise (TRef ''FinalExecutionOutcome'')"

definition key_arg :: ts_type where
  "key_arg = TUnion TString (TRef ''PublicKey'')"

definition Account :: class_decl where
  "Account = Class ''Account'' True
    [ PropertyDecl True ''connection'' (TRef ''Connection''),
      PropertyDecl True ''accountId'' TString,
      ConstructorDecl
        [ Param (Ident ''connection'') False (TRef ''Connection''),
          Param (Ident ''accountId'') False TString ],
      MethodDecl (MethodSig Public ''state'' [] (TPromise (TRef ''AccountView''))),
      PrivateDecl ''printLogsAndFailures'',
      PrivateDecl ''printLogs'',
      MethodDecl (MethodSig Protected ''signTransaction''
        [ Param (Ident ''receiverId'') False TString,
          Param (Ident ''actions'') False (TArray (TRef ''Action'')) ]
        (TPromise (TTuple [TRef ''Uint8Array'', TRef ''SignedTransaction'']))),
      MethodDecl (MethodSig Public ''signAndSendTransaction''
        [ Param (ObjectPattern [''receiverId'', ''actions'', ''returnError'']) False
            (TRef ''SignAndSendTransactionOptions'') ]
        outcome),
      PropertyDecl False ''accessKeyByPublicKeyCache''
        (TIndexed ''key'' TString (TRef ''AccessKeyView'')),
      MethodDecl (MethodSig Public ''findAccessKey''
        [ Param (Ident ''receiverId'') False TString,
          Param (Ident ''actions'') False (TArray (TRef ''Action'')) ]
        (TPromise (TObjLit
          [ (''publicKey'', TRef ''PublicKey''), (''accessKey'', TRef ''AccessKeyView'') ]))),
      MethodDecl (MethodSig Public ''createAndDeployContract''
        [ Param (Ident ''contractId'') False TString,
          Param (Ident ''publicKey'') False key_arg,
          Param (Ident ''data'') False (TRef ''Uint8Array''),
          Param (Ident ''amount'') False (TRef ''BN'') ]
        (TPromise (TRef ''Account''))),
      MethodDecl (MethodSig Public ''sendMoney''
        [ Param (Ident ''receiverId'') False TString,
          Param (Ident ''amount'') False (TRef ''BN'') ]
        outcome),
      MethodDecl (MethodSig Public ''createAccount''
        [ Param (Ident ''newAccountId'') False TString,
          Param (Ident ''publicKey'') False key_arg,
          Param (Ident ''amount'') False (TRef ''BN'') ]
        outcome),
      MethodDecl (MethodSig Public ''deleteAccount''
        [ Param (Ident ''beneficiaryId'') False TString ]
        outcome),
      MethodDecl (MethodSig Public ''deployContract''
        [ Param (Ident ''data'') False (TRef ''Uint8Array'') ]
        outcome),
      PrivateDecl ''encodeJSContractArgs'',
      MethodDecl (MethodSig Public ''functionCall''
        [ Param (ObjectPattern
            [ ''contractId'', ''methodName'', ''args'', ''gas'', ''attachedDeposit'',
              ''walletMeta'', ''walletCallbackUrl'', ''stringify'', ''jsContract'' ])
            False (TRef ''ChangeFunctionCallOptions'') ]
        outcome),
      MethodDecl (MethodSig Public ''addKey''
        [ Param (Ident ''publicKey'') False key_arg,
          Param (Ident ''contractId'') True TString,
          Param (Ident ''methodNames'') True (TUnion TString (TArray TString)),
          Param (Ident ''amount'') True (TRef ''BN'') ]
        outcome),
      MethodDecl (MethodSig Public ''deleteKey''
        [ Param (Ident ''publicKey'') False key_arg ]
        outcome),
      MethodDecl (MethodSig Public ''stake''
        [ Param (Ident ''publicKey'') False key_arg,
          Param (Ident ''amount'') False (TRef ''BN'') ]
        outcome),
      PrivateDecl ''validateArgs'',
      MethodDecl (MethodSig Public ''viewFunction''
        [ Param (ObjectPattern
            [ ''contractId'', ''methodName'', ''args'', ''parse'', ''stringify'',
              ''jsContract'', ''blockQuery'' ])
            False (TRef ''ViewFunctionCallOptions'') ]
        (TPromise TAny)),
      MethodDecl (MethodSig Public ''viewState''
        [ Param (Ident ''prefix'') False (TUnion TString (TRef ''Uint8Array'')),
          Param (Ident ''blockQuery'') True (TRef ''BlockReference'') ]
        (TPromise (TArray (TObjLit
          [ (''key'', TRef ''Buffer''), (''value'', TRef ''Buffer'') ])))),
      MethodDecl (MethodSig Public ''getAccessKeys'' []
        (TPromise (TArray (TRef ''AccessKeyInfoView'')))),
      MethodDecl (MethodSig Public ''getAccountDetails'' []
        (TPromise (TObjLit
          [ (''authorizedApps'', TArray (TRef ''AccountAuthorizedApp'')) ]))),
      MethodDecl (MethodSig Public ''getAccountBalance'' []
        (TPromise (TRef ''AccountBalance''))),
      MethodDecl (MethodSig Public ''getActiveDelegatedStakeBalance'' []
        (TPromise (TRef ''ActiveDelegatedStakeBalance''))) ]"

subsection \<open>The file\<close>

definition account_d_ts :: declaration_file where
  "account_d_ts =
    \<lparr> imports_of = account_imports,
      interfaces =
        [ AccountBalance, AccountAuthorizedApp, SignAndSendTransactionOptions,
          FunctionCallOptions, ChangeFunctionCallOptions, ViewFunctionCallOptions,
          StakedBalance, ActiveDelegatedStakeBalance ],
      classes = [Account] \<rparr>"

subsection \<open>Reading the declarations\<close>

text \<open>The names of the types a type expression refers to, left to right.\<close>

fun type_refs :: "ts_type \<Rightarrow> string list" where
  "type_refs TString = []"
| "type_refs TBoolean = []"
| "type_refs TAny = []"
| "type_refs TObject = []"
| "type_refs (TRef n) = [n]"
| "type_refs (TArray t) = type_refs t"
| "type_refs (TUnion a b) = type_refs a @ type_refs b"
| "type_refs (TTuple ts) = concat (map type_refs ts)"
| "type_refs (TPromise t) = type_refs t"
| "type_refs (TFun ps r) = concat (map (\<lambda>p. type_refs (snd p)) ps) @ type_refs r"
| "type_refs (TIndexed k kt vt) = type_refs kt @ type_refs vt"
| "type_refs (TObjLit fs) = concat (map (\<lambda>p. type_refs (snd p)) fs)"

text \<open>The method signatures, the typed properties and the private members of a class.\<close>

fun method_sigs :: "member list \<Rightarrow> method_sig list" where
  "method_sigs [] = []"
| "method_sigs (MethodDecl m # ms) = m # method_sigs ms"
| "method_sigs (_ # ms) = method_sigs ms"

fun private_members :: "member list \<Rightarrow> string list" where
  "private_members [] = []"
| "private_members (PrivateDecl n # ms) = n # private_members ms"
| "private_members (_ # ms) = private_members ms"

fun constructors :: "member list \<Rightarrow> param list list" where
  "constructors [] = []"
| "constructors (ConstructorDecl ps # ms) = ps # constructors ms"
| "constructors (_ # ms) = constructors ms"

fun properties :: "member list \<Rightarrow> (bool \<times> string \<times> ts_type) list" where
  "properties [] = []"
| "properties (PropertyDecl r n t # ms) = (r, n, t) # properties ms"
| "properties (_ # ms) = properties ms"

definition methods :: "class_decl \<Rightarrow> method_sig list" where
  "methods c = method_sigs (cmembers c)"

text \<open>The declared return type of the method of a given name, if the class has one.\<close>

definition return_type :: "class_decl \<Rightarrow> string \<Rightarrow> ts_type option" where
  "return_type c n = map_option mreturn (find (\<lambda>m. mname m = n) (methods c))"

text \<open>What a method's promise resolves to: \<open>Some t\<close> for \<^verbatim>\<open>Promise<t>\<close>.\<close>

fun resolves_to :: "ts_type \<Rightarrow> ts_type option" where
  "resolves_to (TPromise t) = Some t"
| "resolves_to _ = None"

fun is_promise :: "ts_type \<Rightarrow> bool" where
  "is_promise (TPromise t) = True"
| "is_promise _ = False"


definition declares_method :: "class_decl \<Rightarrow> string \<Rightarrow> bool" where
  "declares_method c n = (n \<in> set (map mname (methods c)))"

text \<open>What the promise returned by the method of a given name resolves to.\<close>

definition resolves :: "class_decl \<Rightarrow> string \<Rightarrow> ts_type option" where
  "resolves c n = Option.bind (return_type c n) resolves_to"

definition methods_resolving_to :: "class_decl \<Rightarrow> ts_type \<Rightarrow> string list" where
  "methods_resolving_to c t =
     map mname (filter (\<lambda>m. resolves_to (mreturn m) = Some t) (methods c))"

text \<open>The names declared in the file, and every name a declaration of the file refers to.\<close>

definition declared_names :: "declaration_file \<Rightarrow> string list" where
  "declared_names f = map iname (interfaces f) @ map cname (classes f)"



subsection \<open>Parameters, and what an option bag carries\<close>

fun binding_names :: "binding \<Rightarrow> string list" where
  "binding_names (Ident n) = [n]"
| "binding_names (ObjectPattern ns) = ns"

text \<open>
  The properties of the interface named \<open>n\<close>, those of the interface it extends first.
  The first argument bounds the length of the \<^verbatim>\<open>extends\<close> chain that is followed; the
  number of interfaces in the file is enough.
\<close>

fun inherited_props :: "nat \<Rightarrow> interface_decl list \<Rightarrow> string \<Rightarrow> prop_sig list" where
  "inherited_props 0 decls n = []"
| "inherited_props (Suc k) decls n =
     (case find (\<lambda>i. iname i = n) decls of
        None \<Rightarrow> []
      | Some i \<Rightarrow>
          (case iextends i of None \<Rightarrow> [] | Some b \<Rightarrow> inherited_props k decls b) @ iprops i)"

definition bag_props :: "declaration_file \<Rightarrow> ts_type \<Rightarrow> prop_sig list" where
  "bag_props f t =
     concat (map (inherited_props (length (interfaces f)) (interfaces f)) (type_refs t))"

text \<open>
  Every name a caller can pass under a parameter: the identifier or the names of the
  object pattern, and the property names of the parameter's type when that type is an
  interface of the file. \<open>param_refs\<close> collects the type names in the same way.
\<close>

definition param_names :: "declaration_file \<Rightarrow> param \<Rightarrow> string list" where
  "param_names f p = binding_names (binding p) @ map pname (bag_props f (partype p))"

definition param_refs :: "declaration_file \<Rightarrow> param \<Rightarrow> string list" where
  "param_refs f p =
     type_refs (partype p) @
     concat (map (\<lambda>q. type_refs (ptype q)) (bag_props f (partype p)))"

text \<open>
  A parameter coordinates or cancels a call when it is, or its option bag carries, an
  abort signal, a cancellation token, a timeout or a lock, recognised by the usual names
  of such parameters and of their types.
\<close>

definition coordination_param_names :: "string list" where
  "coordination_param_names =
    [ ''signal'', ''abortSignal'', ''abortController'', ''cancel'', ''cancelToken'',
      ''cancellationToken'', ''timeout'', ''lock'', ''mutex'', ''semaphore'' ]"

definition coordination_type_names :: "string list" where
  "coordination_type_names =
    [ ''AbortSignal'', ''AbortController'', ''CancelToken'', ''CancellationToken'',
      ''Mutex'', ''Semaphore'', ''Lock'' ]"

definition coordination_param :: "declaration_file \<Rightarrow> param \<Rightarrow> bool" where
  "coordination_param f p =
     (list_ex (\<lambda>n. n \<in> set coordination_param_names) (param_names f p) \<or>
      list_ex (\<lambda>n. n \<in> set coordination_type_names) (param_refs f p))"

subsection \<open>Declarations that speak of errors\<close>







subsection \<open>Flat records and value records\<close>

text \<open>
  A property type is flat when it is a primitive, a type declared outside the file (the
  big number \<^verbatim>\<open>BN\<close>), or a union of such: no array, tuple or object, and no reference to
  another interface or class of the file. The list argument holds the names the file
  declares.
\<close>

fun flat_type :: "string list \<Rightarrow> ts_type \<Rightarrow> bool" where
  "flat_type ds TString = True"
| "flat_type ds TBoolean = True"
| "flat_type ds (TRef n) = (n \<notin> set ds)"
| "flat_type ds (TUnion a b) = (flat_type ds a \<and> flat_type ds b)"
| "flat_type ds _ = False"

definition flat_record :: "declaration_file \<Rightarrow> interface_decl \<Rightarrow> bool" where
  "flat_record f i =
     (iextends i = None \<and> list_all (\<lambda>p. flat_type (declared_names f) (ptype p)) (iprops i))"

text \<open>A type carries behaviour when a function or a promise occurs in it.\<close>

fun carries_behaviour :: "ts_type \<Rightarrow> bool" where
  "carries_behaviour (TFun ps r) = True"
| "carries_behaviour (TPromise t) = True"
| "carries_behaviour (TArray t) = carries_behaviour t"
| "carries_behaviour (TUnion a b) = (carries_behaviour a \<or> carries_behaviour b)"
| "carries_behaviour (TTuple ts) = list_ex carries_behaviour ts"
| "carries_behaviour (TIndexed k kt vt) = (carries_behaviour kt \<or> carries_behaviour vt)"
| "carries_behaviour (TObjLit fs) = list_ex (\<lambda>p. carries_behaviour (snd p)) fs"
| "carries_behaviour _ = False"

text \<open>
  A value record has no lifecycle of its own: it extends nothing, and none of its
  properties is a function or a promise, so it declares nothing that can be called or
  awaited. Which types its properties refer to is read by \<open>record_refs\<close>.
\<close>

definition value_record :: "interface_decl \<Rightarrow> bool" where
  "value_record i =
     (iextends i = None \<and> list_all (\<lambda>p. \<not> carries_behaviour (ptype p)) (iprops i))"

text \<open>
  Every type name the properties of a record refer to, and those among them that are
  interfaces of the file: the records this record holds values of.
\<close>

definition record_refs :: "interface_decl \<Rightarrow> string list" where
  "record_refs i = concat (map (\<lambda>p. type_refs (ptype p)) (iprops i))"

definition nested_records :: "declaration_file \<Rightarrow> interface_decl \<Rightarrow> string list" where
  "nested_records f i = filter (\<lambda>n. n \<in> set (map iname (interfaces f))) (record_refs i)"

subsection \<open>Values of the declared records\<close>

text \<open>
  The data a record can hold: strings, booleans, \<^verbatim>\<open>undefined\<close>, arrays, objects (a list
  of properties, the first entry for a name being its value), and instances of types
  declared outside the file, known by the name of their type.
\<close>

datatype jsval =
    VString string
  | VBoolean bool
  | VUndefined
  | VExternal string
  | VArray "jsval list"
  | VObject "(string \<times> jsval) list"

text \<open>
  Whether a value has a type, for the forms of type the interfaces of the file are
  written with. A name of an interface of the file stands for the objects that have
  every required property of the interface (those it inherits included) at the
  property's type; an optional property may be absent or \<^verbatim>\<open>undefined\<close>; further
  properties are allowed. Any other name stands for the instances of that type, and
  \<^verbatim>\<open>object\<close> for every value that is not a primitive. A function is not data and no value
  of \<open>jsval\<close> has a function type; the forms that occur only in the class (promises,
  tuples, type literals and index signatures) are not opened either. The first argument
  bounds how deep interfaces are opened; the number of interfaces of the file is enough,
  since none of them refers to itself.
\<close>

fun has_data_type :: "nat \<Rightarrow> interface_decl list \<Rightarrow> ts_type \<Rightarrow> jsval \<Rightarrow> bool" where
  "has_data_type k ds TString v = (case v of VString s \<Rightarrow> True | _ \<Rightarrow> False)"
| "has_data_type k ds TBoolean v = (case v of VBoolean b \<Rightarrow> True | _ \<Rightarrow> False)"
| "has_data_type k ds TAny v = True"
| "has_data_type k ds TObject v =
     (case v of VObject fs \<Rightarrow> True | VArray vs \<Rightarrow> True | VExternal n \<Rightarrow> True
      | _ \<Rightarrow> False)"
| "has_data_type k ds (TUnion a b) v = (has_data_type k ds a v \<or> has_data_type k ds b v)"
| "has_data_type k ds (TArray t) v =
     (case v of VArray vs \<Rightarrow> list_all (has_data_type k ds t) vs | _ \<Rightarrow> False)"
| "has_data_type 0 ds (TRef n) v = (n \<notin> set (map iname ds) \<and> v = VExternal n)"
| "has_data_type (Suc k) ds (TRef n) v =
     (if n \<in> set (map iname ds) then
        (case v of
           VObject fs \<Rightarrow>
             list_all (\<lambda>p. case map_of fs (pname p) of
                              None \<Rightarrow> poptional p
                            | Some x \<Rightarrow> (poptional p \<and> x = VUndefined) \<or>
                                         has_data_type k ds (ptype p) x)
               (inherited_props (length ds) ds n)
         | _ \<Rightarrow> False)
      else v = VExternal n)"
| "has_data_type k ds _ v = False"

definition conforms :: "declaration_file \<Rightarrow> interface_decl \<Rightarrow> jsval \<Rightarrow> bool" where
  "conforms f i v =
     has_data_type (length (interfaces f)) (interfaces f) (TRef (iname i)) v"

text \<open>
  The object \<open>fs\<close> with its property \<open>x\<close> replaced: removed when the new value is
  \<open>None\<close>, set to \<open>v\<close> when it is \<open>Some v\<close>. Every other property stays as it is.
\<close>

fun with_property ::
  "string \<Rightarrow> jsval option \<Rightarrow> (string \<times> jsval) list \<Rightarrow> (string \<times> jsval) list" where
  "with_property x None fs = filter (\<lambda>q. fst q \<noteq> x) fs"
| "with_property x (Some v) fs = (x, v) # filter (\<lambda>q. fst q \<noteq> x) fs"

subsection \<open>Operations as remote calls\<close>



section \<open>Account objects\<close>

text \<open>
  An instance of the class holds the three typed properties the class declares (lines
  97, 98 and 122): the connection, the account id, and the cache from public-key
  strings to access-key views. The types of connections and of access-key views are
  declared in other modules and stay abstract.
\<close>

record ('conn, 'akv) account_obj =
  connection :: 'conn
  accountId :: string
  accessKeyByPublicKeyCache :: "string \<rightharpoonup> 'akv"

subsection \<open>Property assignments under the declared modifiers\<close>

text \<open>
  Modelled from the spec: the bodies of the methods of Account are not part of the
  declaration file, so what an operation may do to the instance is modelled from the
  modifiers the class declares and the spec's account of the state ("shared mutable
  state (beyond a simple cache keyed by public key)"). The body of an operation is any
  sequence of writes to the instance: an assignment to one of the three properties, or
  the store of one entry into the cache. An assignment to a property that the class
  declares \<^verbatim>\<open>readonly\<close> is refused, as the compiler refuses it outside the constructor
  (error 2540, "Cannot assign to ... because it is a read-only property"); a body that
  contains one is not a body of the class.
\<close>

datatype ('conn, 'akv) obj_write =
    AssignConnection 'conn
  | AssignAccountId string
  | AssignCache "string \<rightharpoonup> 'akv"
  | StoreCacheEntry string 'akv

datatype check_error = ReadonlyAssignment string

text \<open>The property an assignment names; storing an entry assigns no property.\<close>

fun assigned_property :: "('conn, 'akv) obj_write \<Rightarrow> string option" where
  "assigned_property (AssignConnection c) = Some ''connection''"
| "assigned_property (AssignAccountId a) = Some ''accountId''"
| "assigned_property (AssignCache m) = Some ''accessKeyByPublicKeyCache''"
| "assigned_property (StoreCacheEntry k v) = None"

fun perform :: "('conn, 'akv) obj_write \<Rightarrow> ('conn, 'akv) account_obj \<Rightarrow> ('conn, 'akv) account_obj" where
  "perform (AssignConnection c) obj = obj\<lparr>connection := c\<rparr>"
| "perform (AssignAccountId a) obj = obj\<lparr>accountId := a\<rparr>"
| "perform (AssignCache m) obj = obj\<lparr>accessKeyByPublicKeyCache := m\<rparr>"
| "perform (StoreCacheEntry k v) obj =
     obj\<lparr>accessKeyByPublicKeyCache := (accessKeyByPublicKeyCache obj)(k \<mapsto> v)\<rparr>"

definition readonly_properties :: "class_decl \<Rightarrow> string list" where
  "readonly_properties c = map (\<lambda>p. fst (snd p)) (filter fst (properties (cmembers c)))"

definition mutable_properties :: "class_decl \<Rightarrow> string list" where
  "mutable_properties c =
     map (\<lambda>p. fst (snd p)) (filter (\<lambda>p. \<not> fst p) (properties (cmembers c)))"

definition write_checked ::
  "class_decl \<Rightarrow> ('conn, 'akv) obj_write \<Rightarrow> ('conn, 'akv) account_obj
     \<Rightarrow> check_error + ('conn, 'akv) account_obj" where
  "write_checked c w obj =
     (case assigned_property w of
        None \<Rightarrow> Inr (perform w obj)
      | Some n \<Rightarrow>
          if n \<in> set (readonly_properties c) then Inl (ReadonlyAssignment n)
          else Inr (perform w obj))"

fun run_body ::
  "class_decl \<Rightarrow> ('conn, 'akv) obj_write list \<Rightarrow> ('conn, 'akv) account_obj
     \<Rightarrow> check_error + ('conn, 'akv) account_obj" where
  "run_body c [] obj = Inr obj"
| "run_body c (w # ws) obj =
     (case write_checked c w obj of Inl e \<Rightarrow> Inl e | Inr obj' \<Rightarrow> run_body c ws obj')"

subsection \<open>findAccessKey\<close>

text \<open>
  What the instance reaches through its connection: the key store, which holds the
  account's public key, and the provider, which answers the access-key query. Either
  may fail with an error of the transport. The cache is keyed by the public key
  written as a string.
\<close>

record ('conn, 'pk, 'akv, 'err) collaborators =
  key_store_public_key :: "'conn \<Rightarrow> string \<Rightarrow> 'err + 'pk"
  provider_access_key :: "'conn \<Rightarrow> string \<Rightarrow> 'pk \<Rightarrow> 'err + 'akv"
  key_string :: "'pk \<Rightarrow> string"

text \<open>
  Modelled from the spec: the body of findAccessKey is not part of the declaration
  file. The model follows the declaration's documentation (lines 125 to 137: it "finds
  the AccessKeyView associated with the accounts PublicKey stored in the KeyStore",
  returns the pair of public key and access key, and its parameters receiverId and
  actions are "currently unused") and the spec ("a thin pass-through to a JSON-RPC
  provider, with light local bookkeeping (an access-key cache ...)", "a simple cache
  keyed by public key", "errors are whatever the underlying RPC transport raises").
  The public key of the account is read from the key store; a cached access key for it
  is returned as it is; otherwise the provider is asked, and its answer is cached and
  returned. An error of either collaborator is the result, and leaves the cache as it
  was. The result comes with the instance after the call.
\<close>

definition findAccessKey ::
  "('conn, 'pk, 'akv, 'err) collaborators \<Rightarrow> ('conn, 'akv) account_obj \<Rightarrow> string
     \<Rightarrow> 'action list \<Rightarrow> ('err + ('pk \<times> 'akv)) \<times> ('conn, 'akv) account_obj" where
  "findAccessKey env obj receiverId actions =
     (case key_store_public_key env (connection obj) (accountId obj) of
        Inl e \<Rightarrow> (Inl e, obj)
      | Inr pk \<Rightarrow>
          (case accessKeyByPublicKeyCache obj (key_string env pk) of
             Some ak \<Rightarrow> (Inr (pk, ak), obj)
           | None \<Rightarrow>
               (case provider_access_key env (connection obj) (accountId obj) pk of
                  Inl e \<Rightarrow> (Inl e, obj)
                | Inr ak \<Rightarrow>
                    (Inr (pk, ak),
                     obj\<lparr>accessKeyByPublicKeyCache :=
                           (accessKeyByPublicKeyCache obj)(key_string env pk \<mapsto> ak)\<rparr>))))"


section \<open>Theorems\<close>

subsection \<open>Reading lemmas\<close>

lemmas interface_defs =
  AccountBalance_def AccountAuthorizedApp_def SignAndSendTransactionOptions_def
  FunctionCallOptions_def ChangeFunctionCallOptions_def ViewFunctionCallOptions_def
  StakedBalance_def ActiveDelegatedStakeBalance_def

lemma methods_Account_names:
  "map mname (methods Account) =
    [ ''state'', ''signTransaction'', ''signAndSendTransaction'', ''findAccessKey'',
      ''createAndDeployContract'', ''sendMoney'', ''createAccount'', ''deleteAccount'',
      ''deployContract'', ''functionCall'', ''addKey'', ''deleteKey'', ''stake'',
      ''viewFunction'', ''viewState'', ''getAccessKeys'', ''getAccountDetails'',
      ''getAccountBalance'', ''getActiveDelegatedStakeBalance'' ]"
  by (simp add: methods_def Account_def)

lemma properties_Account:
  "properties (cmembers Account) =
    [ (True, ''connection'', TRef ''Connection''),
      (True, ''accountId'', TString),
      (False, ''accessKeyByPublicKeyCache'',
         TIndexed ''key'' TString (TRef ''AccessKeyView'')) ]"
  by (simp add: Account_def)

lemma readonly_properties_Account:
  "readonly_properties Account = [''connection'', ''accountId'']"
  by (simp add: readonly_properties_def properties_Account)

lemma mutable_properties_Account:
  "mutable_properties Account = [''accessKeyByPublicKeyCache'']"
  by (simp add: mutable_properties_def properties_Account)

lemma methods_return_promises:
  "list_all (\<lambda>m. is_promise (mreturn m)) (methods Account)"
  by (simp add: methods_def Account_def outcome_def)

text \<open>
  Every name and every type a caller can pass to a method of the class, option bags
  opened (duplicates removed, the last occurrence kept).
\<close>

lemma all_param_names:
  "remdups (concat (map (\<lambda>m. concat (map (param_names account_d_ts) (mparams m)))
                        (methods Account))) =
    [ ''returnError'', ''actions'', ''receiverId'', ''newAccountId'', ''beneficiaryId'',
      ''data'', ''walletMeta'', ''walletCallbackUrl'', ''methodNames'', ''publicKey'',
      ''amount'', ''contractId'', ''methodName'', ''args'', ''gas'', ''attachedDeposit'',
      ''stringify'', ''jsContract'', ''parse'', ''prefix'', ''blockQuery'' ]"
  by (simp add: methods_def Account_def outcome_def key_arg_def param_names_def
      bag_props_def account_d_ts_def interface_defs)

lemma all_param_refs:
  "remdups (concat (map (\<lambda>m. concat (map (param_refs account_d_ts) (mparams m)))
                        (methods Account))) =
    [ ''SignAndSendTransactionOptions'', ''Action'', ''ChangeFunctionCallOptions'',
      ''PublicKey'', ''ViewFunctionCallOptions'', ''BN'', ''Buffer'', ''Uint8Array'',
      ''BlockReference'' ]"
  by (simp add: methods_def Account_def outcome_def key_arg_def param_refs_def
      bag_props_def account_d_ts_def interface_defs)

lemma no_coordination_params:
  "list_all (\<lambda>m. \<not> list_ex (coordination_param account_d_ts) (mparams m)) (methods Account)"
  by (simp add: methods_def Account_def outcome_def key_arg_def coordination_param_def
      param_names_def param_refs_def bag_props_def account_d_ts_def interface_defs
      coordination_param_names_def coordination_type_names_def)



lemma declared_names_account_d_ts:
  "declared_names account_d_ts =
    [ ''AccountBalance'', ''AccountAuthorizedApp'', ''SignAndSendTransactionOptions'',
      ''FunctionCallOptions'', ''ChangeFunctionCallOptions'', ''ViewFunctionCallOptions'',
      ''StakedBalance'', ''ActiveDelegatedStakeBalance'', ''Account'' ]"
  by (simp add: declared_names_def account_d_ts_def interface_defs Account_def)

subsection \<open>The frame of a checked body\<close>

lemma write_checked_frame:
  assumes "''connection'' \<in> set (readonly_properties c)"
    and "''accountId'' \<in> set (readonly_properties c)"
    and "write_checked c w obj = Inr obj'"
  shows "connection obj' = connection obj \<and> accountId obj' = accountId obj"
  using assms by (cases w) (auto simp: write_checked_def split: if_splits)

lemma run_body_frame:
  assumes "''connection'' \<in> set (readonly_properties c)"
    and "''accountId'' \<in> set (readonly_properties c)"
  shows "run_body c ws obj = Inr obj' \<Longrightarrow>
    connection obj' = connection obj \<and> accountId obj' = accountId obj"
proof (induction ws arbitrary: obj)
  case Nil
  then show ?case by simp
next
  case (Cons w ws)
  then obtain mid where step: "write_checked c w obj = Inr mid"
    and rest: "run_body c ws mid = Inr obj'"
    by (auto split: sum.splits)
  from write_checked_frame [OF assms step] Cons.IH [OF rest] show ?case by simp
qed

lemma readonly_assignment_refused:
  "run_body Account (AssignAccountId a # ws) obj = Inl (ReadonlyAssignment ''accountId'') \<and>
   run_body Account (AssignConnection c # ws) obj = Inl (ReadonlyAssignment ''connection'')"
  by (simp add: write_checked_def readonly_properties_Account)

lemma findAccessKey_frame:
  "findAccessKey env obj receiverId actions = (res, obj') \<Longrightarrow>
     connection obj' = connection obj \<and> accountId obj' = accountId obj"
  by (auto simp: findAccessKey_def split: sum.splits option.splits)

lemma findAccessKey_cached:
  "findAccessKey env obj r1 a1 = (Inr (pk, ak), obj') \<Longrightarrow>
     findAccessKey env obj' r2 a2 = (Inr (pk, ak), obj')"
  by (auto simp: findAccessKey_def split: sum.splits option.splits)

lemma findAccessKey_fails_as_collaborators_do:
  "fst (findAccessKey env obj receiverId actions) = Inl e \<Longrightarrow>
     key_store_public_key env (connection obj) (accountId obj) = Inl e \<or>
     (\<exists>pk. provider_access_key env (connection obj) (accountId obj) pk = Inl e)"
  by (auto simp: findAccessKey_def split: sum.splits option.splits)



subsection \<open>The properties of a record are constrained one by one\<close>

lemma map_of_filter_other:
  "n \<noteq> x \<Longrightarrow> map_of (filter (\<lambda>q. fst q \<noteq> x) fs) n = map_of fs n"
  by (induction fs) auto

lemma map_of_filter_same: "map_of (filter (\<lambda>q. fst q \<noteq> x) fs) x = None"
  by (induction fs) auto

lemma map_of_with_property:
  "map_of (with_property x ov fs) n = (if n = x then ov else map_of fs n)"
  by (cases ov) (simp_all add: map_of_filter_other map_of_filter_same)

lemma has_data_type_mix:
  assumes "has_data_type (Suc k) ds (TRef n) (VObject fs)"
    and "has_data_type (Suc k) ds (TRef n) (VObject gs)"
    and "n \<in> set (map iname ds)"
  shows "has_data_type (Suc k) ds (TRef n) (VObject (with_property x (map_of gs x) fs))"
  using assms by (auto simp: list_all_iff map_of_with_property)

lemma conforms_mix:
  assumes "i \<in> set (interfaces f)"
    and "conforms f i (VObject fs)" and "conforms f i (VObject gs)"
  shows "conforms f i (VObject (with_property x (map_of gs x) fs))"
proof -
  from assms(1) obtain k where k: "length (interfaces f) = Suc k"
    by (cases "interfaces f") auto
  from assms(1) have "iname i \<in> set (map iname (interfaces f))" by simp
  with assms(2,3) k show ?thesis
    unfolding conforms_def by (simp only: k) (rule has_data_type_mix)
qed

lemma balance_records_declared:
  "set [AccountBalance, AccountAuthorizedApp, StakedBalance, ActiveDelegatedStakeBalance]
     \<subseteq> set (interfaces account_d_ts)"
  by (simp add: account_d_ts_def)

section \<open>The claims\<close>

text \<open>
  C2. Every method the class declares with a signature (the nineteen listed, in source
  order) has a declared return type of the form \<^verbatim>\<open>Promise<...>\<close>, and no parameter of any
  of them, the properties of the option bags included, is a cancellation or
  coordination parameter: the names and the types a caller can pass are the twenty-one
  names and the nine types listed.
\<close>

theorem account_methods_return_promises_without_coordination:
  "map mname (methods Account) =
    [ ''state'', ''signTransaction'', ''signAndSendTransaction'', ''findAccessKey'',
      ''createAndDeployContract'', ''sendMoney'', ''createAccount'', ''deleteAccount'',
      ''deployContract'', ''functionCall'', ''addKey'', ''deleteKey'', ''stake'',
      ''viewFunction'', ''viewState'', ''getAccessKeys'', ''getAccountDetails'',
      ''getAccountBalance'', ''getActiveDelegatedStakeBalance'' ] \<and>
   list_all (\<lambda>m. is_promise (mreturn m)) (methods Account) \<and>
   list_all (\<lambda>m. \<not> list_ex (coordination_param account_d_ts) (mparams m)) (methods Account) \<and>
   remdups (concat (map (\<lambda>m. concat (map (param_names account_d_ts) (mparams m)))
                        (methods Account))) =
    [ ''returnError'', ''actions'', ''receiverId'', ''newAccountId'', ''beneficiaryId'',
      ''data'', ''walletMeta'', ''walletCallbackUrl'', ''methodNames'', ''publicKey'',
      ''amount'', ''contractId'', ''methodName'', ''args'', ''gas'', ''attachedDeposit'',
      ''stringify'', ''jsContract'', ''parse'', ''prefix'', ''blockQuery'' ] \<and>
   remdups (concat (map (\<lambda>m. concat (map (param_refs account_d_ts) (mparams m)))
                        (methods Account))) =
    [ ''SignAndSendTransactionOptions'', ''Action'', ''ChangeFunctionCallOptions'',
      ''PublicKey'', ''ViewFunctionCallOptions'', ''BN'', ''Buffer'', ''Uint8Array'',
      ''BlockReference'' ]"
  by (intro conjI methods_Account_names methods_return_promises no_coordination_params
      all_param_names all_param_refs)

text \<open>
  C3. The typed properties of the class are connection and accountId, both readonly,
  and accessKeyByPublicKeyCache, the only one that is not readonly, whose type maps a
  string key to an AccessKeyView. Every body the declared modifiers admit leaves
  connection and accountId of the instance as they were.
\<close>

theorem account_state_is_cache_only:
  "properties (cmembers Account) =
     [ (True, ''connection'', TRef ''Connection''),
       (True, ''accountId'', TString),
       (False, ''accessKeyByPublicKeyCache'',
          TIndexed ''key'' TString (TRef ''AccessKeyView'')) ] \<and>
   mutable_properties Account = [''accessKeyByPublicKeyCache''] \<and>
   (\<forall>body (obj :: ('conn, 'akv) account_obj) obj'.
      run_body Account body obj = Inr obj' \<longrightarrow>
        connection obj' = connection obj \<and> accountId obj' = accountId obj)"
proof (intro conjI allI impI)
  show "properties (cmembers Account) =
     [ (True, ''connection'', TRef ''Connection''),
       (True, ''accountId'', TString),
       (False, ''accessKeyByPublicKeyCache'',
          TIndexed ''key'' TString (TRef ''AccessKeyView'')) ]"
    by (rule properties_Account)
  show "mutable_properties Account = [''accessKeyByPublicKeyCache'']"
    by (rule mutable_properties_Account)
next
  fix body and obj obj' :: "('conn, 'akv) account_obj"
  assume run: "run_body Account body obj = Inr obj'"
  have ro: "''connection'' \<in> set (readonly_properties Account)"
    "''accountId'' \<in> set (readonly_properties Account)"
    by (simp_all add: readonly_properties_Account)
  from run_body_frame [OF ro run]
  show "connection obj' = connection obj" and "accountId obj' = accountId obj"
    by simp_all
qed

theorem account_state_is_cache_only_witness:
  "run_body Account [StoreCacheEntry ''ed25519:k1'' (7::nat)]
     \<lparr> connection = (), accountId = ''alice.near'', accessKeyByPublicKeyCache = Map.empty \<rparr> =
   Inr \<lparr> connection = (), accountId = ''alice.near'',
         accessKeyByPublicKeyCache = [''ed25519:k1'' \<mapsto> 7] \<rparr> \<and>
   connection \<lparr> connection = (), accountId = ''alice.near'',
         accessKeyByPublicKeyCache = [''ed25519:k1'' \<mapsto> (7::nat)] \<rparr> = () \<and>
   accountId \<lparr> connection = (), accountId = ''alice.near'',
         accessKeyByPublicKeyCache = [''ed25519:k1'' \<mapsto> (7::nat)] \<rparr> = ''alice.near''"
proof -
  have run: "run_body Account [StoreCacheEntry ''ed25519:k1'' (7::nat)]
      \<lparr> connection = (), accountId = ''alice.near'', accessKeyByPublicKeyCache = Map.empty \<rparr> =
    Inr \<lparr> connection = (), accountId = ''alice.near'',
          accessKeyByPublicKeyCache = [''ed25519:k1'' \<mapsto> 7] \<rparr>"
    by (simp add: write_checked_def)
  from account_state_is_cache_only [THEN conjunct2, THEN conjunct2, rule_format, OF run] run
  show ?thesis by simp
qed



text \<open>
  C5, as stated: the four records are flat. ActiveDelegatedStakeBalance is not: two of
  its properties are arrays of StakedBalance records.
\<close>

theorem delegated_stake_balance_not_flat_counterexample:
  "\<not> flat_record account_d_ts ActiveDelegatedStakeBalance"
  by (simp add: flat_record_def ActiveDelegatedStakeBalance_def)

text \<open>
  C5, amended. AccountBalance, AccountAuthorizedApp and StakedBalance are flat value
  records: every property is a string, required except amount and error of
  StakedBalance, which are optional. ActiveDelegatedStakeBalance is a value record that
  is not flat: it holds two required arrays of StakedBalance records, stakedValidators
  and failedValidators, and a required total that is a BN or a string. All four are
  simple field containers. No invariant relates their fields: each property is
  constrained on its own, so a record that takes one property from another record of the
  same type is again a record of that type. They have no lifecycle: they extend nothing
  and declare no function and no promise. The only relationship between them is that
  ActiveDelegatedStakeBalance holds StakedBalance records; the only other type any of
  them refers to is BN, which the file imports.
\<close>

theorem balance_records_are_value_records:
  "list_all (flat_record account_d_ts) [AccountBalance, AccountAuthorizedApp, StakedBalance] \<and>
   map (\<lambda>i. map (\<lambda>p. (pname p, poptional p, ptype p)) (iprops i))
     [AccountBalance, AccountAuthorizedApp, StakedBalance, ActiveDelegatedStakeBalance] =
     [ [ (''total'', False, TString), (''stateStaked'', False, TString),
         (''staked'', False, TString), (''available'', False, TString) ],
       [ (''contractId'', False, TString), (''amount'', False, TString),
         (''publicKey'', False, TString) ],
       [ (''validatorId'', False, TString), (''amount'', True, TString),
         (''error'', True, TString) ],
       [ (''stakedValidators'', False, TArray (TRef ''StakedBalance'')),
         (''failedValidators'', False, TArray (TRef ''StakedBalance'')),
         (''total'', False, TUnion (TRef ''BN'') TString) ] ] \<and>
   list_all value_record
     [AccountBalance, AccountAuthorizedApp, StakedBalance, ActiveDelegatedStakeBalance] \<and>
   map record_refs
     [AccountBalance, AccountAuthorizedApp, StakedBalance, ActiveDelegatedStakeBalance] =
     [[], [], [], [''StakedBalance'', ''StakedBalance'', ''BN'']] \<and>
   map (nested_records account_d_ts)
     [AccountBalance, AccountAuthorizedApp, StakedBalance, ActiveDelegatedStakeBalance] =
     [[], [], [], [''StakedBalance'', ''StakedBalance'']] \<and>
   ImportDefault ''BN'' ''bn.js'' \<in> set (imports_of account_d_ts) \<and>
   (\<forall>i fs gs x.
      i \<in> set [AccountBalance, AccountAuthorizedApp, StakedBalance,
                 ActiveDelegatedStakeBalance] \<longrightarrow>
      conforms account_d_ts i (VObject fs) \<longrightarrow>
      conforms account_d_ts i (VObject gs) \<longrightarrow>
      conforms account_d_ts i (VObject (with_property x (map_of gs x) fs)))"
proof (intro conjI allI impI)
  show "list_all (flat_record account_d_ts)
      [AccountBalance, AccountAuthorizedApp, StakedBalance]"
    by (simp add: flat_record_def declared_names_account_d_ts interface_defs)
  show "map (\<lambda>i. map (\<lambda>p. (pname p, poptional p, ptype p)) (iprops i))
     [AccountBalance, AccountAuthorizedApp, StakedBalance, ActiveDelegatedStakeBalance] =
     [ [ (''total'', False, TString), (''stateStaked'', False, TString),
         (''staked'', False, TString), (''available'', False, TString) ],
       [ (''contractId'', False, TString), (''amount'', False, TString),
         (''publicKey'', False, TString) ],
       [ (''validatorId'', False, TString), (''amount'', True, TString),
         (''error'', True, TString) ],
       [ (''stakedValidators'', False, TArray (TRef ''StakedBalance'')),
         (''failedValidators'', False, TArray (TRef ''StakedBalance'')),
         (''total'', False, TUnion (TRef ''BN'') TString) ] ]"
    by (simp add: interface_defs)
  show "list_all value_record
      [AccountBalance, AccountAuthorizedApp, StakedBalance, ActiveDelegatedStakeBalance]"
    by (simp add: value_record_def interface_defs)
  show "map record_refs
      [AccountBalance, AccountAuthorizedApp, StakedBalance, ActiveDelegatedStakeBalance] =
      [[], [], [], [''StakedBalance'', ''StakedBalance'', ''BN'']]"
    by (simp add: record_refs_def interface_defs)
  show "map (nested_records account_d_ts)
      [AccountBalance, AccountAuthorizedApp, StakedBalance, ActiveDelegatedStakeBalance] =
      [[], [], [], [''StakedBalance'', ''StakedBalance'']]"
    by (simp add: nested_records_def record_refs_def account_d_ts_def interface_defs)
  show "ImportDefault ''BN'' ''bn.js'' \<in> set (imports_of account_d_ts)"
    by (simp add: account_d_ts_def account_imports_def)
next
  fix i fs gs x
  assume "i \<in> set [AccountBalance, AccountAuthorizedApp, StakedBalance,
      ActiveDelegatedStakeBalance]"
  with balance_records_declared have "i \<in> set (interfaces account_d_ts)" by blast
  moreover assume "conforms account_d_ts i (VObject fs)"
    and "conforms account_d_ts i (VObject gs)"
  ultimately show "conforms account_d_ts i (VObject (with_property x (map_of gs x) fs))"
    by (rule conforms_mix)
qed

theorem balance_records_are_value_records_witness:
  "StakedBalance \<in> set [AccountBalance, AccountAuthorizedApp, StakedBalance,
      ActiveDelegatedStakeBalance] \<and>
   conforms account_d_ts StakedBalance
     (VObject [(''validatorId'', VString ''pool.near''), (''amount'', VString ''5'')]) \<and>
   conforms account_d_ts StakedBalance
     (VObject [(''validatorId'', VString ''other.near''), (''error'', VString ''timeout'')]) \<and>
   conforms account_d_ts StakedBalance
     (VObject [(''error'', VString ''timeout''), (''validatorId'', VString ''pool.near''),
               (''amount'', VString ''5'')])"
proof -
  have mem: "StakedBalance \<in> set [AccountBalance, AccountAuthorizedApp, StakedBalance,
      ActiveDelegatedStakeBalance]"
    by simp
  have one: "conforms account_d_ts StakedBalance
      (VObject [(''validatorId'', VString ''pool.near''), (''amount'', VString ''5'')])"
    by (simp add: conforms_def account_d_ts_def interface_defs)
  have two: "conforms account_d_ts StakedBalance
      (VObject [(''validatorId'', VString ''other.near''), (''error'', VString ''timeout'')])"
    by (simp add: conforms_def account_d_ts_def interface_defs)
  from balance_records_are_value_records
  have "\<forall>i fs gs x.
      i \<in> set [AccountBalance, AccountAuthorizedApp, StakedBalance,
                 ActiveDelegatedStakeBalance] \<longrightarrow>
      conforms account_d_ts i (VObject fs) \<longrightarrow>
      conforms account_d_ts i (VObject gs) \<longrightarrow>
      conforms account_d_ts i (VObject (with_property x (map_of gs x) fs))"
    by (elim conjE)
  from this [rule_format, OF mem one two, of "''error''"] mem one two
  show ?thesis by simp
qed

text \<open>
  C6. The file declares exactly one class, Account. It declares nineteen method
  signatures and four private members whose signatures are not emitted. Its one
  constructor takes the connection as its first argument, of the type Connection, which
  the file imports from the connection module and does not declare.
\<close>

theorem one_class_over_supplied_connection:
  "map cname (classes account_d_ts) = [''Account''] \<and>
   length (methods Account) = 19 \<and>
   private_members (cmembers Account) =
     [''printLogsAndFailures'', ''printLogs'', ''encodeJSContractArgs'', ''validateArgs''] \<and>
   constructors (cmembers Account) =
     [[ Param (Ident ''connection'') False (TRef ''Connection''),
        Param (Ident ''accountId'') False TString ]] \<and>
   ImportNamed [''Connection''] ''./connection'' \<in> set (imports_of account_d_ts) \<and>
   ''Connection'' \<notin> set (declared_names account_d_ts)"
  apply (intro conjI)
       apply (simp add: account_d_ts_def Account_def)
      apply (simp add: methods_def Account_def)
     apply (simp add: Account_def)
    apply (simp add: Account_def)
   apply (simp add: account_d_ts_def account_imports_def)
  apply (simp add: declared_names_account_d_ts)
  done

text \<open>
  C7. The class declares a method signature for each name of the five families: viewing
  account state, signing and submitting transactions, managing access keys, staking, and
  querying balances.
\<close>

theorem account_declares_rpc_families:
  "list_all (declares_method Account) [''state''] \<and>
   list_all (declares_method Account) [''signTransaction'', ''signAndSendTransaction''] \<and>
   list_all (declares_method Account)
     [''findAccessKey'', ''addKey'', ''deleteKey'', ''getAccessKeys''] \<and>
   list_all (declares_method Account) [''stake''] \<and>
   list_all (declares_method Account)
     [''getAccountBalance'', ''getActiveDelegatedStakeBalance'']"
  by (simp add: declares_method_def methods_Account_names)

text \<open>
  C9. Each of the nine operations signAndSendTransaction, sendMoney, createAccount,
  deleteAccount, deployContract, functionCall, addKey, deleteKey and stake resolves to
  FinalExecutionOutcome, and they are the only methods that do; createAndDeployContract
  resolves to an Account, and it is the only method that does.
\<close>

theorem state_changing_operations_resolve_uniformly:
  "list_all (\<lambda>n. resolves Account n = Some (TRef ''FinalExecutionOutcome''))
     [ ''signAndSendTransaction'', ''sendMoney'', ''createAccount'', ''deleteAccount'',
       ''deployContract'', ''functionCall'', ''addKey'', ''deleteKey'', ''stake'' ] \<and>
   methods_resolving_to Account (TRef ''FinalExecutionOutcome'') =
     [ ''signAndSendTransaction'', ''sendMoney'', ''createAccount'', ''deleteAccount'',
       ''deployContract'', ''functionCall'', ''addKey'', ''deleteKey'', ''stake'' ] \<and>
   resolves Account ''createAndDeployContract'' = Some (TRef ''Account'') \<and>
   methods_resolving_to Account (TRef ''Account'') = [''createAndDeployContract'']"
  by (simp add: resolves_def return_type_def methods_resolving_to_def methods_def
      Account_def outcome_def)

text \<open>
  C10. On the same instance and with the same key store and provider, two calls of
  findAccessKey that differ only in receiverId and actions return the same result and
  leave the same instance.
\<close>

theorem findAccessKey_ignores_receiver_and_actions:
  "findAccessKey env obj receiverId actions = findAccessKey env obj receiverId' actions'"
  by (simp add: findAccessKey_def)

end
